theory Spec2Isabelle
  imports Main "HOL-Library.Word" "HOL-Library.AList"
begin

section \<open>JavaScript strings\<close>

text \<open>
  A JavaScript string is a sequence of UTF-16 code units, and \<^verbatim>\<open>s.length\<close> counts
  code units. A string is therefore a list of 16-bit words; a string literal of the
  source is written \<open>jsstr ''...''\<close>. A byte buffer is a list of 8-bit words.
\<close>

type_synonym jsstring = "16 word list"
type_synonym bytes = "8 word list"

definition jsstr :: "string \<Rightarrow> jsstring" where
  "jsstr s = map of_char s"

text \<open>
  \<^verbatim>\<open>String.prototype.trim\<close> removes, at both ends, the code units of the ECMAScript
  productions WhiteSpace and LineTerminator: TAB, LF, VT, FF, CR, SP, NBSP, U+1680,
  U+2000..U+200A, U+2028, U+2029, U+202F, U+205F, U+3000 and U+FEFF.
\<close>

definition isWhiteSpace :: "16 word \<Rightarrow> bool" where
  "isWhiteSpace c \<longleftrightarrow>
     c = 0x0009 \<or> c = 0x000A \<or> c = 0x000B \<or> c = 0x000C \<or> c = 0x000D \<or> c = 0x0020 \<or>
     c = 0x00A0 \<or> c = 0x1680 \<or> (0x2000 \<le> c \<and> c \<le> 0x200A) \<or> c = 0x2028 \<or>
     c = 0x2029 \<or> c = 0x202F \<or> c = 0x205F \<or> c = 0x3000 \<or> c = 0xFEFF"

definition trim :: "jsstring \<Rightarrow> jsstring" where
  "trim s = rev (dropWhile isWhiteSpace (rev (dropWhile isWhiteSpace s)))"

text \<open>Truthiness of a string: the empty string is the only falsy one.\<close>

definition truthy :: "jsstring \<Rightarrow> bool" where
  "truthy s \<longleftrightarrow> s \<noteq> []"

text \<open>
  \<^verbatim>\<open>s.split(sep)\<close> for a separator of one code unit: the segments between the
  separators, in order; the empty string gives one empty segment.
\<close>

fun split :: "16 word \<Rightarrow> jsstring \<Rightarrow> jsstring list" where
  "split sep [] = [[]]"
| "split sep (c # cs) =
     (if c = sep then [] # split sep cs
      else (case split sep cs of
              [] \<Rightarrow> [[c]]
            | seg # segs \<Rightarrow> (c # seg) # segs))"

text \<open>\<^verbatim>\<open>a.pop()\<close>: the last element, \<^verbatim>\<open>undefined\<close> on an empty array.\<close>

definition pop :: "'a list \<Rightarrow> 'a option" where
  "pop xs = (if xs = [] then None else Some (last xs))"

text \<open>\<^verbatim>\<open>a.join(sep)\<close>.\<close>

fun join :: "jsstring \<Rightarrow> jsstring list \<Rightarrow> jsstring" where
  "join sep [] = []"
| "join sep [x] = x"
| "join sep (x # y # ys) = x @ sep @ join sep (y # ys)"

text \<open>A string inside a template literal; \<^verbatim>\<open>undefined\<close> and \<^verbatim>\<open>null\<close> print their names.\<close>

definition template_undefined :: "jsstring option \<Rightarrow> jsstring" where
  "template_undefined v = (case v of None \<Rightarrow> jsstr ''undefined'' | Some s \<Rightarrow> s)"

text \<open>The decimal digits of a non-negative integer, as a template literal prints it.\<close>

fun decimal :: "nat \<Rightarrow> jsstring" where
  "decimal n =
     (if n < 10 then [0x30 + of_nat n]
      else decimal (n div 10) @ [0x30 + of_nat (n mod 10)])"

declare decimal.simps [simp del]


section \<open>Errors and control flow\<close>

text \<open>
  The exceptions the program can see. \<open>Error\<close> is a plain \<^verbatim>\<open>Error\<close> with its
  message, \<open>MulterError\<close> carries the code and the message of the upload layer's own
  error class, \<open>ReferenceError\<close> is raised by reading an identifier that no scope binds,
  and \<open>ServiceError\<close> is whatever a remote service (blob store, document database,
  speech synthesis, PDF parser) rejects with.
\<close>

datatype jserror =
    Error jsstring
  | MulterError jsstring jsstring
  | ReferenceError jsstring
  | ServiceError jsstring

fun message :: "jserror \<Rightarrow> jsstring" where
  "message (Error m) = m"
| "message (MulterError c m) = m"
| "message (ReferenceError m) = m"
| "message (ServiceError m) = m"

text \<open>
  The conversion record: the data the handler builds, and the document
  \<^verbatim>\<open>saveConversion\<close> writes, which adds \<^verbatim>\<open>id\<close> and \<^verbatim>\<open>createdAt\<close>. The fields
  \<^verbatim>\<open>text\<close> and \<^verbatim>\<open>id\<close> are \<open>text_field\<close> and \<open>id_field\<close> here.
\<close>

record conversionData =
  text_field :: jsstring
  inputType :: jsstring
  originalFileName :: "jsstring option"
  originalFileUrl :: "jsstring option"
  audioUrl :: jsstring
  status :: jsstring
  completedAt :: nat
  textLength :: nat

record conversionWithId = conversionData +
  id_field :: jsstring
  createdAt :: nat

text \<open>
  The body of a JSON response: \<^verbatim>\<open>{error}\<close>, \<^verbatim>\<open>{error, message}\<close>,
  \<^verbatim>\<open>{success, conversionId, audioUrl, textLength, inputType, message}\<close>,
  \<^verbatim>\<open>{success, count, conversions}\<close> and \<^verbatim>\<open>{success, message, deletedConversionId}\<close>.
  A response sent without \<^verbatim>\<open>res.status\<close> has the status 200.
\<close>

datatype json_body =
    ErrorBody jsstring
  | ErrorMessageBody jsstring jsstring
  | ConvertBody bool jsstring jsstring nat jsstring jsstring
  | ConversionsBody bool nat "conversionWithId list"
  | DeletedBody bool jsstring jsstring

record response =
  statusCode :: nat
  json :: json_body

text \<open>
  How a block of statements ends: normally with a value, by \<^verbatim>\<open>return\<close> after a
  response was sent, or by throwing.
\<close>

datatype 'a completion = Normal 'a | Return response | Throw jserror

section \<open>The external services\<close>

text \<open>
  The state of the two stores: the document database, one collection
  \<^verbatim>\<open>users/{userId}/conversions\<close> per user holding documents by their identifier, and
  the bucket of the blob store, holding objects by their logical name.
\<close>

record storedFile =
  content :: bytes
  contentType :: jsstring
  isPublic :: bool

record world =
  firestore :: "jsstring \<Rightarrow> (jsstring \<times> conversionWithId) list"
  bucket :: "jsstring \<rightharpoonup> storedFile"

record ttsRequest =
  input_text :: jsstring
  voice_name :: jsstring
  voice_languageCode :: jsstring

text \<open>
  What the outside decides during one request: the results of the PDF parser, of the
  UTF-8 decoder and of the speech synthesis, whether a call to a store is refused
  (\<open>None\<close>: it goes through), the clock, the random suffixes and the identifier the
  database generates for a new document.
\<close>

record services =
  pdf :: "bytes \<Rightarrow> jserror + jsstring"
  toString_utf8 :: "bytes \<Rightarrow> jsstring"
  synthesizeSpeech :: "ttsRequest \<Rightarrow> jserror + bytes"
  file_save :: "jsstring \<Rightarrow> jserror option"
  file_makePublic :: "jsstring \<Rightarrow> jserror option"
  file_delete :: "jsstring \<Rightarrow> jserror option"
  doc_set :: "jsstring \<Rightarrow> jsstring \<Rightarrow> jserror option"
  collection_get :: "jsstring \<Rightarrow> jserror option"
  doc_delete :: "jsstring \<Rightarrow> jsstring \<Rightarrow> jserror option"
  Date_now :: "jsstring \<Rightarrow> nat"
  Math_random_suffix :: "jsstring \<Rightarrow> jsstring"
  new_Date :: nat
  doc_autoId :: jsstring
  serverTimestamp :: nat

section \<open>firebase.js\<close>

definition bucket_name :: jsstring where
  "bucket_name = jsstr ''bustling-bot-464601-a9.firebasestorage.app''"

text \<open>
  \<^verbatim>\<open>saveConversion\<close>: a document reference with a generated identifier, the data
  extended by \<^verbatim>\<open>id\<close> and \<^verbatim>\<open>createdAt\<close>, and \<^verbatim>\<open>set\<close>, which writes the document
  under that identifier (replacing one that is there).
\<close>

definition saveConversion ::
  "services \<Rightarrow> world \<Rightarrow> jsstring \<Rightarrow> conversionData \<Rightarrow> (jserror + jsstring) \<times> world" where
  "saveConversion sv w userId data =
     (let docId = doc_autoId sv;
          conversionWithId = conversionData.extend data
            (conversionWithId.fields docId (serverTimestamp sv))
      in case doc_set sv userId docId of
           Some e \<Rightarrow> (Inl e, w)
         | None \<Rightarrow>
             (Inr docId,
              w\<lparr>firestore := (firestore w)
                   (userId := AList.update docId conversionWithId (firestore w userId))\<rparr>))"

text \<open>
  \<^verbatim>\<open>getConversions\<close>: every document of the user's collection, as
  \<^verbatim>\<open>{ id: doc.id, ...doc.data() }\<close>. The spread comes after \<^verbatim>\<open>id\<close>, so the \<^verbatim>\<open>id\<close>
  field of the document's own data is the one the object keeps.
\<close>

definition listed :: "jsstring \<Rightarrow> conversionWithId \<Rightarrow> conversionWithId" where
  "listed docId d = (d\<lparr>id_field := docId\<rparr>)\<lparr>id_field := id_field d\<rparr>"

definition getConversions ::
  "services \<Rightarrow> world \<Rightarrow> jsstring \<Rightarrow> jserror + conversionWithId list" where
  "getConversions sv w userId =
     (case collection_get sv userId of
        Some e \<Rightarrow> Inl e
      | None \<Rightarrow> Inr (map (\<lambda>(docId, d). listed docId d) (firestore w userId)))"

text \<open>
  \<^verbatim>\<open>deleteConversion\<close>: \<^verbatim>\<open>docRef.delete()\<close> without a precondition, which the
  database treats as a success also when no such document exists.
\<close>

definition deleteConversion ::
  "services \<Rightarrow> world \<Rightarrow> jsstring \<Rightarrow> jsstring \<Rightarrow> (jserror + jsstring) \<times> world" where
  "deleteConversion sv w userId conversionId =
     (case doc_delete sv userId conversionId of
        Some e \<Rightarrow> (Inl e, w)
      | None \<Rightarrow>
          (Inr conversionId,
           w\<lparr>firestore := (firestore w)
                (userId := AList.delete conversionId (firestore w userId))\<rparr>))"

definition publicUrl :: "jsstring \<Rightarrow> jsstring" where
  "publicUrl fileName =
     jsstr ''https://storage.googleapis.com/'' @ bucket_name @ jsstr ''/'' @ fileName"

text \<open>\<^verbatim>\<open>uploadFile\<close>: save the object, make it public, return its public URL.\<close>

definition uploadFile ::
  "services \<Rightarrow> world \<Rightarrow> jsstring \<Rightarrow> bytes \<Rightarrow> jsstring \<Rightarrow> (jserror + jsstring) \<times> world" where
  "uploadFile sv w fileName fileBuffer ctype =
     (case file_save sv fileName of
        Some e \<Rightarrow> (Inl e, w)
      | None \<Rightarrow>
          (let saved = \<lparr>content = fileBuffer, contentType = ctype, isPublic = False\<rparr>;
               w1 = w\<lparr>bucket := (bucket w)(fileName \<mapsto> saved)\<rparr>
           in case file_makePublic sv fileName of
                Some e \<Rightarrow> (Inl e, w1)
              | None \<Rightarrow>
                  (Inr (publicUrl fileName),
                   w1\<lparr>bucket := (bucket w1)(fileName \<mapsto> saved\<lparr>isPublic := True\<rparr>)\<rparr>)))"

text \<open>
  \<^verbatim>\<open>deleteFile\<close>: \<^verbatim>\<open>file.delete()\<close>, which the blob store rejects when there is no
  object of that name.
\<close>

definition deleteFile ::
  "services \<Rightarrow> world \<Rightarrow> jsstring \<Rightarrow> (jserror + bool) \<times> world" where
  "deleteFile sv w fileName =
     (case bucket w fileName of
        None \<Rightarrow> (Inl (ServiceError (jsstr ''No such object: '' @ fileName)), w)
      | Some f \<Rightarrow>
          (case file_delete sv fileName of
             Some e \<Rightarrow> (Inl e, w)
           | None \<Rightarrow> (Inr True, w\<lparr>bucket := (bucket w)(fileName := None)\<rparr>)))"

section \<open>tts.js\<close>

text \<open>
  The repository holds two versions of this module. They differ in what they log and in
  an optional voice parameter of \<^verbatim>\<open>convertAndSaveAudio\<close>, which \<^verbatim>\<open>index.js\<close> never
  passes: in both, the voice is the default one.

  \<^verbatim>\<open>convertTextToAudio\<close>: the language code is the first two segments of the voice name
  between hyphens; the audio configuration of the request is constant (MP3, pitch 0,
  rate 1.0, one effects profile) and is left out of \<open>ttsRequest\<close>.
\<close>

definition convertTextToAudio ::
  "services \<Rightarrow> jsstring \<Rightarrow> jsstring \<Rightarrow> jsstring \<Rightarrow> jserror + bytes" where
  "convertTextToAudio sv txt fileName voiceName =
     (let languageCode = join (jsstr ''-'') (take 2 (split 0x2D voiceName));
          request = \<lparr>input_text = txt, voice_name = voiceName,
                     voice_languageCode = languageCode\<rparr>
      in synthesizeSpeech sv request)"

definition saveAudioFile ::
  "services \<Rightarrow> world \<Rightarrow> bytes \<Rightarrow> jsstring \<Rightarrow> (jserror + jsstring) \<times> world" where
  "saveAudioFile sv w audioBuffer fileName =
     uploadFile sv w fileName audioBuffer (jsstr ''audio/mpeg'')"

text \<open>The object \<^verbatim>\<open>convertAndSaveAudio\<close> returns; its fields carry the prefix \<open>ar_\<close>.\<close>

record audioResult =
  ar_success :: bool
  ar_audioUrl :: jsstring
  ar_fileName :: jsstring
  ar_audioSize :: nat
  ar_voiceUsed :: jsstring

definition default_voice :: jsstring where
  "default_voice = jsstr ''en-US-Wavenet-D''"

definition convertAndSaveAudio ::
  "services \<Rightarrow> world \<Rightarrow> jsstring \<Rightarrow> jsstring \<Rightarrow> (jserror + audioResult) \<times> world" where
  "convertAndSaveAudio sv w txt fileName =
     (case convertTextToAudio sv txt fileName default_voice of
        Inl e \<Rightarrow> (Inl e, w)
      | Inr audioBuffer \<Rightarrow>
          (case saveAudioFile sv w audioBuffer fileName of
             (Inl e, w1) \<Rightarrow> (Inl e, w1)
           | (Inr url, w1) \<Rightarrow>
               (Inr \<lparr>ar_success = True, ar_audioUrl = url, ar_fileName = fileName,
                     ar_audioSize = length audioBuffer, ar_voiceUsed = default_voice\<rparr>,
                w1)))"

section \<open>index.js: the upload layer\<close>

record uploadedFile =
  originalname :: jsstring
  mimetype :: jsstring
  buffer :: bytes

text \<open>
  A request to \<^verbatim>\<open>POST /convert\<close>: the fields \<^verbatim>\<open>userId\<close> and \<^verbatim>\<open>text\<close> of the body
  (\<open>None\<close>: the field is absent) and the part named \<^verbatim>\<open>file\<close>, if there is one.
  The fields are strings, as the fields of a multipart form are.
\<close>

record convertRequest =
  body_userId :: "jsstring option"
  body_text :: "jsstring option"
  req_file :: "uploadedFile option"

definition allowedTypes :: "jsstring list" where
  "allowedTypes = [jsstr ''application/pdf'', jsstr ''text/plain'']"

text \<open>\<^verbatim>\<open>fileFilter\<close>: \<^verbatim>\<open>cb(null, true)\<close> is \<open>Inr True\<close>, \<^verbatim>\<open>cb(new Error(...), false)\<close> is \<open>Inl\<close>.\<close>

definition fileFilter :: "uploadedFile \<Rightarrow> jserror + bool" where
  "fileFilter f =
     (if mimetype f \<in> set allowedTypes then Inr True
      else Inl (Error (jsstr ''Only PDF and TXT files are allowed'')))"

definition fileSize_limit :: nat where
  "fileSize_limit = 10 * 1024 * 1024"

text \<open>
  \<^verbatim>\<open>upload.single('file')\<close>: the filter is asked when the file part starts; an error
  of the filter, or a file longer than the limit, ends the request with that error
  (\<^verbatim>\<open>next(err)\<close>), and the route's handler is not called.
\<close>

definition upload_single :: "convertRequest \<Rightarrow> jserror + convertRequest" where
  "upload_single req =
     (case req_file req of
        None \<Rightarrow> Inr req
      | Some f \<Rightarrow>
          (case fileFilter f of
             Inl e \<Rightarrow> Inl e
           | Inr accepted \<Rightarrow>
               if \<not> accepted then Inr (req\<lparr>req_file := None\<rparr>)
               else if length (buffer f) > fileSize_limit
                 then Inl (MulterError (jsstr ''LIMIT_FILE_SIZE'') (jsstr ''File too large''))
               else Inr req))"

text \<open>The error handling middleware, which answers every error passed to \<^verbatim>\<open>next\<close>.\<close>

definition errorMiddleware :: "jserror \<Rightarrow> response" where
  "errorMiddleware error =
     (case error of
        MulterError code m \<Rightarrow>
          if code = jsstr ''LIMIT_FILE_SIZE''
          then \<lparr>statusCode = 400,
                json = ErrorBody (jsstr ''File too large. Maximum size is 10MB.'')\<rparr>
          else \<lparr>statusCode = 500,
                json = ErrorMessageBody (jsstr ''Internal server error'') (message error)\<rparr>
      | _ \<Rightarrow> \<lparr>statusCode = 500,
               json = ErrorMessageBody (jsstr ''Internal server error'') (message error)\<rparr>)"

section \<open>index.js: POST /convert\<close>

definition extractTextFromBuffer :: "services \<Rightarrow> bytes \<Rightarrow> jsstring \<Rightarrow> jserror + jsstring" where
  "extractTextFromBuffer sv buf mtype =
     (if mtype = jsstr ''application/pdf'' then pdf sv buf
      else if mtype = jsstr ''text/plain'' then Inr (toString_utf8 sv buf)
      else Inl (Error (jsstr ''Unsupported file type'')))"

text \<open>
  \<^verbatim>\<open>generateFileName\<close>: the clock and the random suffix are read once per call; the
  two calls of one request differ in their type tag, which indexes the readings.
\<close>

definition generateFileName :: "services \<Rightarrow> jsstring \<Rightarrow> jsstring \<Rightarrow> jsstring" where
  "generateFileName sv userId type =
     (let timestamp = Date_now sv type;
          random = Math_random_suffix sv type
      in type @ jsstr ''_'' @ userId @ jsstr ''_'' @ decimal timestamp @ jsstr ''_'' @ random)"

text \<open>The handler's local variables once the text has been acquired.\<close>

record acquired =
  var_textContent :: jsstring
  var_inputType :: jsstring
  var_originalFileName :: "jsstring option"
  var_originalFileUrl :: "jsstring option"

text \<open>
  The first part of the \<^verbatim>\<open>try\<close> block, after the check of \<^verbatim>\<open>userId\<close>: the text of
  the uploaded file (extracted, and the original stored under \<^verbatim>\<open>uploads/\<close>), else the
  inline text when it is truthy, else the response 400.
\<close>

definition acquireText ::
  "services \<Rightarrow> world \<Rightarrow> convertRequest \<Rightarrow> jsstring \<Rightarrow> acquired completion \<times> world" where
  "acquireText sv w req userId =
     (case req_file req of
        Some f \<Rightarrow>
          (let inputType = (if mimetype f = jsstr ''application/pdf''
                            then jsstr ''pdf'' else jsstr ''txt'')
           in case extractTextFromBuffer sv (buffer f) (mimetype f) of
                Inl e \<Rightarrow> (Throw e, w)
              | Inr textContent \<Rightarrow>
                  (let storageFileName =
                         jsstr ''uploads/'' @ generateFileName sv userId (jsstr ''original'')
                           @ jsstr ''.'' @ inputType
                   in case uploadFile sv w storageFileName (buffer f) (mimetype f) of
                        (Inl e, w1) \<Rightarrow> (Throw e, w1)
                      | (Inr url, w1) \<Rightarrow>
                          (Normal \<lparr>var_textContent = textContent, var_inputType = inputType,
                                   var_originalFileName = Some (originalname f),
                                   var_originalFileUrl = Some url\<rparr>, w1)))
      | None \<Rightarrow>
          (case body_text req of
             None \<Rightarrow>
               (Return \<lparr>statusCode = 400,
                        json = ErrorBody (jsstr ''No text or file provided'')\<rparr>, w)
           | Some t \<Rightarrow>
               if truthy t
               then (Normal \<lparr>var_textContent = t, var_inputType = jsstr ''text'',
                             var_originalFileName = None, var_originalFileUrl = None\<rparr>, w)
               else (Return \<lparr>statusCode = 400,
                             json = ErrorBody (jsstr ''No text or file provided'')\<rparr>, w)))"

text \<open>
  The rest of the \<^verbatim>\<open>try\<close> block: the two checks of the text, the synthesis and the
  upload of the audio, the record, the response. \<open>Inr\<close> is the response sent, \<open>Inl\<close>
  the error thrown.
\<close>

definition validateAndConvert ::
  "services \<Rightarrow> world \<Rightarrow> jsstring \<Rightarrow> acquired \<Rightarrow> (jserror + response) \<times> world" where
  "validateAndConvert sv w userId a =
     (let textContent = var_textContent a in
      if \<not> truthy (trim textContent)
      then (Inr \<lparr>statusCode = 400, json = ErrorBody (jsstr ''Empty text content'')\<rparr>, w)
      else if length textContent > 5000
      then (Inr \<lparr>statusCode = 400,
                 json = ErrorBody (jsstr ''Text too long. Maximum 5000 characters allowed.'')\<rparr>,
            w)
      else
        (let audioFileName =
               jsstr ''audio/'' @ generateFileName sv userId (jsstr ''audio'') @ jsstr ''.mp3''
         in case convertAndSaveAudio sv w textContent audioFileName of
              (Inl e, w1) \<Rightarrow> (Inl e, w1)
            | (Inr audioResult, w1) \<Rightarrow>
                (let conversionData =
                       \<lparr>text_field = textContent,
                        inputType = var_inputType a,
                        originalFileName = var_originalFileName a,
                        originalFileUrl = var_originalFileUrl a,
                        audioUrl = ar_audioUrl audioResult,
                        status = jsstr ''completed'',
                        completedAt = new_Date sv,
                        textLength = length textContent\<rparr>
                 in case saveConversion sv w1 userId conversionData of
                      (Inl e, w2) \<Rightarrow> (Inl e, w2)
                    | (Inr conversionId, w2) \<Rightarrow>
                        (Inr \<lparr>statusCode = 200,
                              json = ConvertBody True conversionId (ar_audioUrl audioResult)
                                (length textContent) (var_inputType a)
                                (jsstr ''Text successfully converted to audio'')\<rparr>,
                         w2))))"

definition convertTry ::
  "services \<Rightarrow> world \<Rightarrow> convertRequest \<Rightarrow> (jserror + response) \<times> world" where
  "convertTry sv w req =
     (case body_userId req of
        None \<Rightarrow> (Inr \<lparr>statusCode = 400, json = ErrorBody (jsstr ''User ID is required'')\<rparr>, w)
      | Some userId \<Rightarrow>
          if \<not> truthy userId
          then (Inr \<lparr>statusCode = 400, json = ErrorBody (jsstr ''User ID is required'')\<rparr>, w)
          else
            (case acquireText sv w req userId of
               (Return r, w1) \<Rightarrow> (Inr r, w1)
             | (Throw e, w1) \<Rightarrow> (Inl e, w1)
             | (Normal a, w1) \<Rightarrow> validateAndConvert sv w1 userId a))"

text \<open>The \<^verbatim>\<open>catch\<close> block answers a thrown error with 500.\<close>

definition convertCatch :: "jserror \<Rightarrow> response" where
  "convertCatch error =
     \<lparr>statusCode = 500, json = ErrorMessageBody (jsstr ''Conversion failed'') (message error)\<rparr>"

text \<open>
  The identifiers bound where the \<^verbatim>\<open>finally\<close> block stands: the handler's parameters,
  the declarations of the module, the names of the module wrapper and the globals the
  module uses. The \<^verbatim>\<open>let\<close> and \<^verbatim>\<open>const\<close> declarations of the \<^verbatim>\<open>try\<close> block are
  local to that block. Reading an identifier that is not bound throws a
  \<^verbatim>\<open>ReferenceError\<close>; every identifier bound here holds a function, an object or the
  port, all truthy.
\<close>

definition finally_scope :: "string list" where
  "finally_scope =
     [''req'', ''res'',
      ''express'', ''multer'', ''cors'', ''fs'', ''path'', ''pdf'',
      ''saveConversion'', ''getConversions'', ''deleteConversion'', ''uploadFile'',
      ''deleteFile'', ''convertAndSaveAudio'', ''app'', ''PORT'', ''upload'',
      ''extractTextFromBuffer'', ''generateFileName'',
      ''require'', ''module'', ''exports'', ''__filename'', ''__dirname'',
      ''process'', ''console'', ''Date'', ''Math'', ''Error'']"

definition getValue :: "string list \<Rightarrow> string \<Rightarrow> jserror + bool" where
  "getValue scope x =
     (if x \<in> set scope then Inr True
      else Inl (ReferenceError (jsstr x @ jsstr '' is not defined'')))"

datatype cleanup = GuardThrew jserror | BodySkipped | BodyRun

definition convertFinally :: cleanup where
  "convertFinally =
     (case getValue finally_scope ''tempFilePath'' of
        Inl e \<Rightarrow> GuardThrew e
      | Inr v \<Rightarrow> if v then BodyRun else BodySkipped)"

text \<open>
  What a route does with a request: the response it sends, and the error its handler's
  promise rejects with after that, if any.
\<close>

record outcome =
  sent :: response
  cleanup_outcome :: "cleanup option"
  rejection :: "jserror option"

definition convertHandler :: "services \<Rightarrow> world \<Rightarrow> convertRequest \<Rightarrow> outcome \<times> world" where
  "convertHandler sv w req =
     (let (r, w1) = convertTry sv w req;
          res = (case r of Inr sent1 \<Rightarrow> sent1 | Inl e \<Rightarrow> convertCatch e);
          fin = convertFinally
      in (\<lparr>sent = res, cleanup_outcome = Some fin,
           rejection = (case fin of GuardThrew e \<Rightarrow> Some e | _ \<Rightarrow> None)\<rparr>, w1))"

definition post_convert :: "services \<Rightarrow> world \<Rightarrow> convertRequest \<Rightarrow> outcome \<times> world" where
  "post_convert sv w req =
     (case upload_single req of
        Inl e \<Rightarrow> (\<lparr>sent = errorMiddleware e, cleanup_outcome = None, rejection = None\<rparr>, w)
      | Inr req1 \<Rightarrow> convertHandler sv w req1)"

section \<open>index.js: GET and DELETE /conversions\<close>

definition get_conversions :: "services \<Rightarrow> world \<Rightarrow> jsstring \<Rightarrow> response" where
  "get_conversions sv w userId =
     (if \<not> truthy userId
      then \<lparr>statusCode = 400, json = ErrorBody (jsstr ''User ID is required'')\<rparr>
      else case getConversions sv w userId of
             Inl e \<Rightarrow> \<lparr>statusCode = 500,
                        json = ErrorMessageBody (jsstr ''Failed to retrieve conversions'')
                                 (message e)\<rparr>
           | Inr conversions \<Rightarrow>
               \<lparr>statusCode = 200,
                json = ConversionsBody True (length conversions) conversions\<rparr>)"

text \<open>The names of the artifacts of a record, rebuilt from its two URLs.\<close>

definition filesToDelete :: "conversionWithId \<Rightarrow> jsstring list" where
  "filesToDelete conversion =
     (case originalFileUrl conversion of
        None \<Rightarrow> []
      | Some url \<Rightarrow>
          if truthy url
          then [jsstr ''uploads/'' @ template_undefined (pop (split 0x2F url))]
          else [])
     @ (if truthy (audioUrl conversion)
        then [jsstr ''audio/'' @ template_undefined (pop (split 0x2F (audioUrl conversion)))]
        else [])"

text \<open>The loop over the files: an error of \<^verbatim>\<open>deleteFile\<close> is caught and logged.\<close>

fun deleteFiles :: "services \<Rightarrow> world \<Rightarrow> jsstring list \<Rightarrow> world" where
  "deleteFiles sv w [] = w"
| "deleteFiles sv w (fileName # rest) =
     (case deleteFile sv w fileName of
        (Inl fileError, w1) \<Rightarrow> deleteFiles sv w1 rest
      | (Inr ok, w1) \<Rightarrow> deleteFiles sv w1 rest)"

definition delete_conversion ::
  "services \<Rightarrow> world \<Rightarrow> jsstring \<Rightarrow> jsstring \<Rightarrow> response \<times> world" where
  "delete_conversion sv w userId conversionId =
     (if \<not> truthy userId \<or> \<not> truthy conversionId
      then (\<lparr>statusCode = 400,
             json = ErrorBody (jsstr ''User ID and Conversion ID are required'')\<rparr>, w)
      else case getConversions sv w userId of
             Inl e \<Rightarrow>
               (\<lparr>statusCode = 500,
                 json = ErrorMessageBody (jsstr ''Failed to delete conversion'') (message e)\<rparr>, w)
           | Inr conversions \<Rightarrow>
               (case find (\<lambda>c. id_field c = conversionId) conversions of
                  None \<Rightarrow>
                    (\<lparr>statusCode = 404, json = ErrorBody (jsstr ''Conversion not found'')\<rparr>, w)
                | Some conversion \<Rightarrow>
                    (let w1 = deleteFiles sv w (filesToDelete conversion)
                     in case deleteConversion sv w1 userId conversionId of
                          (Inl e, w2) \<Rightarrow>
                            (\<lparr>statusCode = 500,
                              json = ErrorMessageBody (jsstr ''Failed to delete conversion'')
                                       (message e)\<rparr>, w2)
                        | (Inr deleted, w2) \<Rightarrow>
                            (\<lparr>statusCode = 200,
                              json = DeletedBody True
                                (jsstr ''Conversion and associated files deleted successfully'')
                                conversionId\<rparr>, w2))))"

section \<open>Well-formed namespaces and example inputs\<close>

text \<open>
  A user's collection as the program builds it: one document per identifier, and the
  \<^verbatim>\<open>id\<close> field of each document is the identifier it is stored under.
\<close>

definition wf_namespace :: "(jsstring \<times> conversionWithId) list \<Rightarrow> bool" where
  "wf_namespace docs \<longleftrightarrow>
     distinct (map fst docs) \<and> list_all (\<lambda>(docId, d). id_field d = docId) docs"

text \<open>Services that never fail, services whose blob store refuses every deletion.\<close>

definition ok_services :: services where
  "ok_services =
     \<lparr>pdf = (\<lambda>b. Inr (jsstr ''text of the document'')),
      toString_utf8 = (\<lambda>b. map ucast b),
      synthesizeSpeech = (\<lambda>r. Inr [0x49, 0x44, 0x33]),
      file_save = (\<lambda>n. None),
      file_makePublic = (\<lambda>n. None),
      file_delete = (\<lambda>n. None),
      doc_set = (\<lambda>u d. None),
      collection_get = (\<lambda>u. None),
      doc_delete = (\<lambda>u d. None),
      Date_now = (\<lambda>t. 1723456789012),
      Math_random_suffix = (\<lambda>t. jsstr ''k3j9zq''),
      new_Date = 1723456789100,
      doc_autoId = jsstr ''Doc1'',
      serverTimestamp = 1723456789200\<rparr>"

definition no_delete_services :: services where
  "no_delete_services =
     ok_services\<lparr>file_delete := (\<lambda>n. Some (ServiceError (jsstr ''delete refused'')))\<rparr>"

definition empty_world :: world where
  "empty_world = \<lparr>firestore = (\<lambda>u. []), bucket = Map.empty\<rparr>"

text \<open>
  One record of user \<^verbatim>\<open>u1\<close>, made from an uploaded text file. Its audio is in the
  bucket, its original upload is not.
\<close>

definition example_record :: conversionWithId where
  "example_record =
     \<lparr>text_field = jsstr ''hello'',
      inputType = jsstr ''txt'',
      originalFileName = Some (jsstr ''hello.txt''),
      originalFileUrl = Some (publicUrl (jsstr ''uploads/original_u1_1_aaaaaa.txt'')),
      audioUrl = publicUrl (jsstr ''audio/audio_u1_2_bbbbbb.mp3''),
      status = jsstr ''completed'',
      completedAt = 3,
      textLength = 5,
      id_field = jsstr ''c1'',
      createdAt = 4\<rparr>"

definition example_world :: world where
  "example_world =
     \<lparr>firestore = (\<lambda>u. [])(jsstr ''u1'' := [(jsstr ''c1'', example_record)]),
      bucket = [jsstr ''audio/audio_u1_2_bbbbbb.mp3'' \<mapsto>
                 \<lparr>content = [0x49, 0x44, 0x33], contentType = jsstr ''audio/mpeg'',
                  isPublic = True\<rparr>]\<rparr>"

definition inline_request :: "jsstring \<Rightarrow> convertRequest" where
  "inline_request t =
     \<lparr>body_userId = Some (jsstr ''u1''), body_text = Some t, req_file = None\<rparr>"

text \<open>A plain-text file of a space, a line feed and a space.\<close>

definition blank_file_request :: convertRequest where
  "blank_file_request =
     \<lparr>body_userId = Some (jsstr ''u1''), body_text = None,
      req_file = Some \<lparr>originalname = jsstr ''blank.txt'', mimetype = jsstr ''text/plain'',
                       buffer = [0x20, 0x0A, 0x20]\<rparr>\<rparr>"

definition png_request :: convertRequest where
  "png_request =
     \<lparr>body_userId = Some (jsstr ''u1''), body_text = None,
      req_file = Some \<lparr>originalname = jsstr ''photo.png'', mimetype = jsstr ''image/png'',
                       buffer = [0x89, 0x50, 0x4E, 0x47]\<rparr>\<rparr>"

section \<open>Strings\<close>

lemma trim_Nil_iff: "trim s = [] \<longleftrightarrow> list_all isWhiteSpace s"
proof -
  have "(\<forall>x\<in>set (dropWhile isWhiteSpace s). isWhiteSpace x) \<longleftrightarrow> (\<forall>x\<in>set s. isWhiteSpace x)"
  proof
    assume rest: "\<forall>x\<in>set (dropWhile isWhiteSpace s). isWhiteSpace x"
    have "set s = set (takeWhile isWhiteSpace s) \<union> set (dropWhile isWhiteSpace s)"
      by (metis set_append takeWhile_dropWhile_id)
    with rest show "\<forall>x\<in>set s. isWhiteSpace x"
      by (auto dest: set_takeWhileD)
  next
    assume "\<forall>x\<in>set s. isWhiteSpace x"
    then show "\<forall>x\<in>set (dropWhile isWhiteSpace s). isWhiteSpace x"
      by (auto dest: set_dropWhileD)
  qed
  then show ?thesis
    by (simp add: trim_def list_all_iff)
qed

lemma split_not_Nil: "split sep s \<noteq> []"
  by (induction s) (auto split: list.splits)

lemma split_no_sep: "sep \<notin> set s \<Longrightarrow> split sep s = [s]"
  by (induction s) auto

lemma split_tail: "sep \<in> set s \<Longrightarrow> tl (split sep s) \<noteq> []"
  by (induction s) (auto simp: split_not_Nil split: list.splits)

lemma last_split: "sep \<notin> set base \<Longrightarrow> last (split sep (p @ sep # base)) = base"
proof (induction p)
  case Nil
  then show ?case by (simp add: split_no_sep)
next
  case (Cons c p)
  let ?rest = "split sep (p @ sep # base)"
  obtain seg segs where rest: "?rest = seg # segs"
    using split_not_Nil [of sep "p @ sep # base"] by (cases ?rest) auto
  have "tl ?rest \<noteq> []"
    by (rule split_tail) simp
  with rest have segs: "segs \<noteq> []" by simp
  from Cons have "last ?rest = base" by simp
  with rest segs have "last segs = base" by simp
  with rest segs show ?case by simp
qed

lemma pop_split: "sep \<notin> set base \<Longrightarrow> pop (split sep (p @ sep # base)) = Some base"
  by (simp add: pop_def split_not_Nil last_split)

lemma languageCode_default:
  "join (jsstr ''-'') (take 2 (split 0x2D default_voice)) = jsstr ''en-US''"
  by (simp add: default_voice_def jsstr_def)

section \<open>The steps of POST /convert\<close>

lemma upload_single_no_file: "req_file req = None \<Longrightarrow> upload_single req = Inr req"
  by (simp add: upload_single_def)

lemma acquireText_inline:
  "req_file req = None \<Longrightarrow> body_text req = Some t \<Longrightarrow> t \<noteq> [] \<Longrightarrow>
   acquireText sv w req userId =
     (Normal \<lparr>var_textContent = t, var_inputType = jsstr ''text'',
              var_originalFileName = None, var_originalFileUrl = None\<rparr>, w)"
  by (simp add: acquireText_def truthy_def)

lemma convertAndSaveAudio_ok:
  assumes "synthesizeSpeech sv \<lparr>input_text = t, voice_name = default_voice,
             voice_languageCode = jsstr ''en-US''\<rparr> = Inr audioBuffer"
    and "file_save sv name = None" and "file_makePublic sv name = None"
  shows "convertAndSaveAudio sv w t name =
           (Inr \<lparr>ar_success = True, ar_audioUrl = publicUrl name, ar_fileName = name,
                 ar_audioSize = length audioBuffer, ar_voiceUsed = default_voice\<rparr>,
            w\<lparr>bucket := (bucket w)(name \<mapsto>
                 \<lparr>content = audioBuffer, contentType = jsstr ''audio/mpeg'', isPublic = True\<rparr>)\<rparr>)"
  using assms
  by (simp add: convertAndSaveAudio_def convertTextToAudio_def saveAudioFile_def uploadFile_def
      languageCode_default)

lemma validateAndConvert_blank:
  "list_all isWhiteSpace (var_textContent a) \<Longrightarrow>
   validateAndConvert sv w userId a =
     (Inr \<lparr>statusCode = 400, json = ErrorBody (jsstr ''Empty text content'')\<rparr>, w)"
  by (simp add: validateAndConvert_def truthy_def trim_Nil_iff)

lemma validateAndConvert_too_long:
  "\<not> list_all isWhiteSpace (var_textContent a) \<Longrightarrow> 5000 < length (var_textContent a) \<Longrightarrow>
   validateAndConvert sv w userId a =
     (Inr \<lparr>statusCode = 400,
           json = ErrorBody (jsstr ''Text too long. Maximum 5000 characters allowed.'')\<rparr>, w)"
  by (simp add: validateAndConvert_def truthy_def trim_Nil_iff)

lemma validateAndConvert_ok:
  assumes "\<not> list_all isWhiteSpace (var_textContent a)" and "length (var_textContent a) \<le> 5000"
    and "name = jsstr ''audio/'' @ generateFileName sv userId (jsstr ''audio'') @ jsstr ''.mp3''"
    and "synthesizeSpeech sv \<lparr>input_text = var_textContent a, voice_name = default_voice,
             voice_languageCode = jsstr ''en-US''\<rparr> = Inr audioBuffer"
    and "file_save sv name = None" and "file_makePublic sv name = None"
    and "doc_set sv userId (doc_autoId sv) = None"
  shows "validateAndConvert sv w userId a =
     (Inr \<lparr>statusCode = 200,
           json = ConvertBody True (doc_autoId sv) (publicUrl name) (length (var_textContent a))
                    (var_inputType a) (jsstr ''Text successfully converted to audio'')\<rparr>,
      w\<lparr>bucket := (bucket w)(name \<mapsto>
            \<lparr>content = audioBuffer, contentType = jsstr ''audio/mpeg'', isPublic = True\<rparr>),
        firestore := (firestore w)(userId := AList.update (doc_autoId sv)
            \<lparr>text_field = var_textContent a, inputType = var_inputType a,
             originalFileName = var_originalFileName a,
             originalFileUrl = var_originalFileUrl a,
             audioUrl = publicUrl name, status = jsstr ''completed'',
             completedAt = new_Date sv, textLength = length (var_textContent a),
             id_field = doc_autoId sv, createdAt = serverTimestamp sv\<rparr>
            (firestore w userId))\<rparr>)"
proof -
  have audio: "convertAndSaveAudio sv w (var_textContent a) name =
           (Inr \<lparr>ar_success = True, ar_audioUrl = publicUrl name, ar_fileName = name,
                 ar_audioSize = length audioBuffer, ar_voiceUsed = default_voice\<rparr>,
            w\<lparr>bucket := (bucket w)(name \<mapsto>
                 \<lparr>content = audioBuffer, contentType = jsstr ''audio/mpeg'', isPublic = True\<rparr>)\<rparr>)"
    using assms(4-6) by (rule convertAndSaveAudio_ok)
  show ?thesis
    using assms(1,2,7) audio [unfolded assms(3)]
    by (simp add: validateAndConvert_def truthy_def trim_Nil_iff saveConversion_def assms(3)
        conversionData.defs conversionWithId.defs Let_def)
qed

lemma convertHandler_sent:
  "sent (fst (convertHandler sv w req)) =
     (case fst (convertTry sv w req) of Inr r \<Rightarrow> r | Inl e \<Rightarrow> convertCatch e)"
  by (simp add: convertHandler_def split: prod.splits)

lemma convertHandler_world:
  "snd (convertHandler sv w req) = snd (convertTry sv w req)"
  by (simp add: convertHandler_def split: prod.splits)

lemma convertTry_acquired:
  "body_userId req = Some userId \<Longrightarrow> userId \<noteq> [] \<Longrightarrow>
   acquireText sv w req userId = (Normal a, w1) \<Longrightarrow>
   convertTry sv w req = validateAndConvert sv w1 userId a"
  by (simp add: convertTry_def truthy_def)

section \<open>Claims about POST /convert\<close>

text \<open>
  Claim C1. A request with a truthy \<^verbatim>\<open>userId\<close>, no file and an inline text of 1 to 5000
  code units that is not all whitespace, when the synthesis, the upload of the audio and
  the write of the record go through, is answered with \<^verbatim>\<open>success: true\<close>, a non-empty
  \<^verbatim>\<open>audioUrl\<close> and \<^verbatim>\<open>textLength\<close> equal to the length of the text; the record written
  holds that text, and its \<^verbatim>\<open>textLength\<close> is the length of its \<^verbatim>\<open>text\<close>.
\<close>

theorem C1_convert_inline_text_succeeds:
  assumes "body_userId req = Some userId" and "truthy userId"
    and "req_file req = None" and "body_text req = Some t"
    and "1 \<le> length t" and "length t \<le> 5000" and "\<not> list_all isWhiteSpace t"
    and "name = jsstr ''audio/'' @ generateFileName sv userId (jsstr ''audio'') @ jsstr ''.mp3''"
    and "synthesizeSpeech sv \<lparr>input_text = t, voice_name = default_voice,
           voice_languageCode = jsstr ''en-US''\<rparr> = Inr audioBuffer"
    and "file_save sv name = None" and "file_makePublic sv name = None"
    and "doc_set sv userId (doc_autoId sv) = None"
  shows "sent (fst (post_convert sv w req)) =
           \<lparr>statusCode = 200,
            json = ConvertBody True (doc_autoId sv) (publicUrl name) (length t) (jsstr ''text'')
                     (jsstr ''Text successfully converted to audio'')\<rparr>
       \<and> publicUrl name \<noteq> []
       \<and> (\<exists>d. map_of (firestore (snd (post_convert sv w req)) userId) (doc_autoId sv) = Some d
              \<and> text_field d = t \<and> textLength d = length (text_field d)
              \<and> audioUrl d = publicUrl name)"
proof -
  let ?a = "\<lparr>var_textContent = t, var_inputType = jsstr ''text'',
              var_originalFileName = None, var_originalFileUrl = None\<rparr>"
  from assms(5) have t: "t \<noteq> []" by auto
  have acq: "acquireText sv w req userId = (Normal ?a, w)"
    using assms(3,4) t by (rule acquireText_inline)
  have tried: "convertTry sv w req = validateAndConvert sv w userId ?a"
    using assms(1) assms(2) acq by (simp add: convertTry_acquired truthy_def)
  have val: "validateAndConvert sv w userId ?a =
     (Inr \<lparr>statusCode = 200,
           json = ConvertBody True (doc_autoId sv) (publicUrl name) (length (var_textContent ?a))
                    (var_inputType ?a) (jsstr ''Text successfully converted to audio'')\<rparr>,
      w\<lparr>bucket := (bucket w)(name \<mapsto>
            \<lparr>content = audioBuffer, contentType = jsstr ''audio/mpeg'', isPublic = True\<rparr>),
        firestore := (firestore w)(userId := AList.update (doc_autoId sv)
            \<lparr>text_field = var_textContent ?a, inputType = var_inputType ?a,
             originalFileName = var_originalFileName ?a,
             originalFileUrl = var_originalFileUrl ?a,
             audioUrl = publicUrl name, status = jsstr ''completed'',
             completedAt = new_Date sv, textLength = length (var_textContent ?a),
             id_field = doc_autoId sv, createdAt = serverTimestamp sv\<rparr>
            (firestore w userId))\<rparr>)"
    by (rule validateAndConvert_ok) (use assms in simp_all)
  have route: "post_convert sv w req = convertHandler sv w req"
    using assms(3) by (simp add: post_convert_def upload_single_no_file)
  have "sent (fst (post_convert sv w req)) =
           \<lparr>statusCode = 200,
            json = ConvertBody True (doc_autoId sv) (publicUrl name) (length t) (jsstr ''text'')
                     (jsstr ''Text successfully converted to audio'')\<rparr>"
    by (simp add: route convertHandler_sent tried val)
  moreover have "publicUrl name \<noteq> []"
    by (simp add: publicUrl_def jsstr_def)
  moreover have "\<exists>d. map_of (firestore (snd (post_convert sv w req)) userId) (doc_autoId sv) = Some d
              \<and> text_field d = t \<and> textLength d = length (text_field d)
              \<and> audioUrl d = publicUrl name"
    by (simp add: route convertHandler_world tried val update_conv')
  ultimately show ?thesis by blast
qed


text \<open>The request \<^verbatim>\<open>{userId: "u1", text: "hello"}\<close> against services that succeed.\<close>
theorem C1_witness:
  "sent (fst (post_convert ok_services empty_world (inline_request (jsstr ''hello'')))) =
     \<lparr>statusCode = 200,
      json = ConvertBody True (jsstr ''Doc1'')
               (jsstr ''https://storage.googleapis.com/bustling-bot-464601-a9.firebasestorage.app/audio/audio_u1_1723456789012_k3j9zq.mp3'')
               5 (jsstr ''text'') (jsstr ''Text successfully converted to audio'')\<rparr>
   \<and> (\<exists>d. map_of (firestore (snd (post_convert ok_services empty_world
                 (inline_request (jsstr ''hello'')))) (jsstr ''u1'')) (jsstr ''Doc1'') = Some d
          \<and> text_field d = jsstr ''hello'' \<and> textLength d = 5)"
proof -
  let ?req = "inline_request (jsstr ''hello'')"
  let ?name = "jsstr ''audio/'' @ generateFileName ok_services (jsstr ''u1'') (jsstr ''audio'')
                 @ jsstr ''.mp3''"
  have name: "?name = jsstr ''audio/audio_u1_1723456789012_k3j9zq.mp3''"
    by (simp add: generateFileName_def ok_services_def decimal.simps jsstr_def)
  have url: "publicUrl (jsstr ''audio/audio_u1_1723456789012_k3j9zq.mp3'') =
    jsstr ''https://storage.googleapis.com/bustling-bot-464601-a9.firebasestorage.app/audio/audio_u1_1723456789012_k3j9zq.mp3''"
    by (simp add: publicUrl_def bucket_name_def jsstr_def)
  have len: "length (jsstr ''hello'') = 5"
    by (simp add: jsstr_def)
  have docId: "doc_autoId ok_services = jsstr ''Doc1''"
    by (simp add: ok_services_def)
  have h1: "body_userId ?req = Some (jsstr ''u1'')" and h3: "req_file ?req = None"
    and h4: "body_text ?req = Some (jsstr ''hello'')"
    by (simp_all add: inline_request_def)
  have h2: "truthy (jsstr ''u1'')"
    by (simp add: truthy_def jsstr_def)
  have h5: "1 \<le> length (jsstr ''hello'')" and h6: "length (jsstr ''hello'') \<le> 5000"
    by (simp_all add: len)
  have h7: "\<not> list_all isWhiteSpace (jsstr ''hello'')"
    by (simp add: jsstr_def isWhiteSpace_def)
  have h9: "synthesizeSpeech ok_services \<lparr>input_text = jsstr ''hello'',
      voice_name = default_voice, voice_languageCode = jsstr ''en-US''\<rparr> = Inr [0x49, 0x44, 0x33]"
    and h10: "file_save ok_services ?name = None"
    and h11: "file_makePublic ok_services ?name = None"
    and h12: "doc_set ok_services (jsstr ''u1'') (doc_autoId ok_services) = None"
    by (simp_all add: ok_services_def)
  from C1_convert_inline_text_succeeds [OF h1 h2 h3 h4 h5 h6 h7 refl h9 h10 h11 h12, of empty_world]
  show ?thesis
    unfolding name url docId by (auto simp: len)
qed

lemma validateAndConvert_within:
  assumes "\<not> list_all isWhiteSpace (var_textContent a)" and "length (var_textContent a) \<le> 5000"
  shows "case fst (validateAndConvert sv w userId a) of
           Inr r \<Rightarrow> statusCode r = 200 | Inl e \<Rightarrow> True"
  using assms
  by (simp add: validateAndConvert_def truthy_def trim_Nil_iff Let_def
      split: prod.splits sum.splits)

text \<open>
  Claim C2. For an inline text that is not all whitespace, the check of the length
  rejects exactly the texts longer than 5000 code units: a text of 5001 code units (and
  any longer one) is answered with 400 and the too-long error, a text of 5000 code units
  (and any shorter one) is not answered with 400 at all.
\<close>

theorem C2_length_boundary_at_5000:
  assumes "body_userId req = Some userId" and "truthy userId"
    and "req_file req = None" and "body_text req = Some t"
    and "\<not> list_all isWhiteSpace t"
  shows "(5000 < length t \<longrightarrow>
            sent (fst (post_convert sv w req)) =
              \<lparr>statusCode = 400,
               json = ErrorBody (jsstr ''Text too long. Maximum 5000 characters allowed.'')\<rparr>)
       \<and> (length t \<le> 5000 \<longrightarrow> statusCode (sent (fst (post_convert sv w req))) \<noteq> 400)"
proof -
  let ?a = "\<lparr>var_textContent = t, var_inputType = jsstr ''text'',
              var_originalFileName = None, var_originalFileUrl = None\<rparr>"
  from assms(5) have t: "t \<noteq> []" by auto
  have acq: "acquireText sv w req userId = (Normal ?a, w)"
    using assms(3,4) t by (rule acquireText_inline)
  have tried: "convertTry sv w req = validateAndConvert sv w userId ?a"
    using assms(1) assms(2) acq by (simp add: convertTry_acquired truthy_def)
  have route: "post_convert sv w req = convertHandler sv w req"
    using assms(3) by (simp add: post_convert_def upload_single_no_file)
  have long: "sent (fst (post_convert sv w req)) =
              \<lparr>statusCode = 400,
               json = ErrorBody (jsstr ''Text too long. Maximum 5000 characters allowed.'')\<rparr>"
    if "5000 < length t"
    using that assms(5)
    by (simp add: route convertHandler_sent tried validateAndConvert_too_long)
  have short: "statusCode (sent (fst (post_convert sv w req))) \<noteq> 400" if "length t \<le> 5000"
    using that assms(5) validateAndConvert_within [of ?a sv w userId]
    by (simp add: route convertHandler_sent tried convertCatch_def split: sum.splits)
  from long short show ?thesis by blast
qed

text \<open>The letter A, 5001 times and 5000 times.\<close>
theorem C2_witness:
  "sent (fst (post_convert ok_services empty_world (inline_request (replicate 5001 0x41)))) =
     \<lparr>statusCode = 400,
      json = ErrorBody (jsstr ''Text too long. Maximum 5000 characters allowed.'')\<rparr>
   \<and> statusCode (sent (fst (post_convert ok_services empty_world
         (inline_request (replicate 5000 0x41))))) \<noteq> 400"
proof -
  have letter: "\<not> isWhiteSpace 0x41"
    by (simp add: isWhiteSpace_def)
  have a: "\<not> list_all isWhiteSpace (replicate 5001 0x41)"
    using letter by (simp add: list_all_iff)
  have b: "\<not> list_all isWhiteSpace (replicate 5000 0x41)"
    using letter by (simp add: list_all_iff)
  show ?thesis
    using C2_length_boundary_at_5000 [of "inline_request (replicate 5001 0x41)" "jsstr ''u1''"
        "replicate 5001 0x41" ok_services empty_world, OF _ _ _ _ a]
      C2_length_boundary_at_5000 [of "inline_request (replicate 5000 0x41)" "jsstr ''u1''"
        "replicate 5000 0x41" ok_services empty_world, OF _ _ _ _ b]
    by (simp add: inline_request_def truthy_def jsstr_def)
qed

text \<open>
  Claim C3. When the upload layer lets the request through, \<^verbatim>\<open>userId\<close> is truthy and the
  text was acquired (inline, or extracted from the file with the original stored), a
  text of whitespace only is answered with 400 and the empty-content error, whatever its
  length: never with the too-long error, since the check of emptiness comes first.
\<close>

theorem C3_whitespace_text_is_empty_content:
  assumes "upload_single req = Inr req1"
    and "body_userId req1 = Some userId" and "truthy userId"
    and "acquireText sv w req1 userId = (Normal a, w1)"
    and "list_all isWhiteSpace (var_textContent a)"
  shows "sent (fst (post_convert sv w req)) =
           \<lparr>statusCode = 400, json = ErrorBody (jsstr ''Empty text content'')\<rparr>
       \<and> sent (fst (post_convert sv w req)) \<noteq>
           \<lparr>statusCode = 400,
            json = ErrorBody (jsstr ''Text too long. Maximum 5000 characters allowed.'')\<rparr>
       \<and> snd (post_convert sv w req) = w1"
proof -
  have tried: "convertTry sv w req1 = validateAndConvert sv w1 userId a"
    using assms(2,3,4) by (simp add: convertTry_acquired truthy_def)
  have route: "post_convert sv w req = convertHandler sv w req1"
    using assms(1) by (simp add: post_convert_def)
  have differ: "jsstr ''Empty text content'' \<noteq>
      jsstr ''Text too long. Maximum 5000 characters allowed.''"
    by (simp add: jsstr_def)
  show ?thesis
    using assms(5) differ
    by (simp add: route convertHandler_sent convertHandler_world tried validateAndConvert_blank)
qed

text \<open>
  An inline text of 5001 spaces; and an uploaded text file of whitespace, whose original
  is stored in the bucket before the text is checked.
\<close>

theorem C3_witness:
  "sent (fst (post_convert ok_services empty_world (inline_request (replicate 5001 0x20)))) =
     \<lparr>statusCode = 400, json = ErrorBody (jsstr ''Empty text content'')\<rparr>
   \<and> sent (fst (post_convert ok_services empty_world blank_file_request)) =
     \<lparr>statusCode = 400, json = ErrorBody (jsstr ''Empty text content'')\<rparr>
   \<and> bucket (snd (post_convert ok_services empty_world blank_file_request))
        (jsstr ''uploads/'' @ generateFileName ok_services (jsstr ''u1'') (jsstr ''original'')
           @ jsstr ''.'' @ jsstr ''txt'') \<noteq> None"
proof -
  have user: "truthy (jsstr ''u1'')"
    by (simp add: truthy_def jsstr_def)
  let ?req = "inline_request (replicate 5001 0x20)"
  let ?a = "\<lparr>var_textContent = replicate 5001 0x20, var_inputType = jsstr ''text'',
              var_originalFileName = None, var_originalFileUrl = None\<rparr>"
  have up: "upload_single ?req = Inr ?req"
    by (simp add: upload_single_no_file inline_request_def)
  have acq: "acquireText ok_services empty_world ?req (jsstr ''u1'') = (Normal ?a, empty_world)"
    by (rule acquireText_inline) (simp_all add: inline_request_def)
  have blank: "list_all isWhiteSpace (var_textContent ?a)"
    by (simp add: list_all_iff isWhiteSpace_def)
  have inline: "sent (fst (post_convert ok_services empty_world ?req)) =
      \<lparr>statusCode = 400, json = ErrorBody (jsstr ''Empty text content'')\<rparr>"
    using C3_whitespace_text_is_empty_content [OF up _ user acq blank]
    by (simp add: inline_request_def)
  let ?name = "jsstr ''uploads/'' @ generateFileName ok_services (jsstr ''u1'') (jsstr ''original'')
           @ jsstr ''.'' @ jsstr ''txt''"
  let ?w1 = "empty_world\<lparr>bucket := (bucket empty_world)(?name \<mapsto>
      \<lparr>content = [0x20, 0x0A, 0x20], contentType = jsstr ''text/plain'', isPublic = True\<rparr>)\<rparr>"
  let ?b = "\<lparr>var_textContent = [0x20, 0x0A, 0x20], var_inputType = jsstr ''txt'',
             var_originalFileName = Some (jsstr ''blank.txt''),
             var_originalFileUrl = Some (publicUrl ?name)\<rparr>"
  have mime: "jsstr ''text/plain'' \<noteq> jsstr ''application/pdf''"
    by (simp add: jsstr_def)
  have up_file: "upload_single blank_file_request = Inr blank_file_request"
    by (simp add: upload_single_def blank_file_request_def fileFilter_def allowedTypes_def
        fileSize_limit_def)
  have extracted: "extractTextFromBuffer ok_services [0x20, 0x0A, 0x20] (jsstr ''text/plain'') =
      Inr [0x20, 0x0A, 0x20]"
    using mime by (simp add: extractTextFromBuffer_def ok_services_def)
  have stored: "uploadFile ok_services empty_world ?name [0x20, 0x0A, 0x20]
      (jsstr ''text/plain'') = (Inr (publicUrl ?name), ?w1)"
    by (simp add: uploadFile_def ok_services_def Let_def)
  have acq_file: "acquireText ok_services empty_world blank_file_request (jsstr ''u1'') =
      (Normal ?b, ?w1)"
    using mime extracted stored
    by (simp add: acquireText_def blank_file_request_def Let_def)
  have blank_file: "list_all isWhiteSpace (var_textContent ?b)"
    by (simp add: isWhiteSpace_def)
  have user_file: "body_userId blank_file_request = Some (jsstr ''u1'')"
    by (simp add: blank_file_request_def)
  have uploaded: "sent (fst (post_convert ok_services empty_world blank_file_request)) =
      \<lparr>statusCode = 400, json = ErrorBody (jsstr ''Empty text content'')\<rparr>
    \<and> snd (post_convert ok_services empty_world blank_file_request) = ?w1"
    using C3_whitespace_text_is_empty_content [OF up_file user_file user acq_file blank_file]
    by simp
  from inline uploaded show ?thesis
    by simp
qed

text \<open>
  Claim C9. With a truthy \<^verbatim>\<open>userId\<close>, no file and the empty string as inline text, the
  answer is 400 with \<^verbatim>\<open>No text or file provided\<close>, not the empty-content error, nothing
  is stored, and the whole outcome is that of the same request without a text field.
\<close>

theorem C9_empty_inline_text_is_no_content:
  assumes "body_userId req = Some userId" and "truthy userId"
    and "req_file req = None" and "body_text req = Some []"
  shows "sent (fst (post_convert sv w req)) =
           \<lparr>statusCode = 400, json = ErrorBody (jsstr ''No text or file provided'')\<rparr>
       \<and> sent (fst (post_convert sv w req)) \<noteq>
           \<lparr>statusCode = 400, json = ErrorBody (jsstr ''Empty text content'')\<rparr>
       \<and> snd (post_convert sv w req) = w
       \<and> post_convert sv w req = post_convert sv w (req\<lparr>body_text := None\<rparr>)"
proof -
  have differ: "jsstr ''No text or file provided'' \<noteq> jsstr ''Empty text content''"
    by (simp add: jsstr_def)
  have route: "post_convert sv w req = convertHandler sv w req"
    using assms(3) by (simp add: post_convert_def upload_single_no_file)
  have route': "post_convert sv w (req\<lparr>body_text := None\<rparr>) =
      convertHandler sv w (req\<lparr>body_text := None\<rparr>)"
    using assms(3) by (simp add: post_convert_def upload_single_no_file)
  have tried: "convertTry sv w req =
      (Inr \<lparr>statusCode = 400, json = ErrorBody (jsstr ''No text or file provided'')\<rparr>, w)"
    using assms by (simp add: convertTry_def acquireText_def truthy_def)
  have tried': "convertTry sv w (req\<lparr>body_text := None\<rparr>) =
      (Inr \<lparr>statusCode = 400, json = ErrorBody (jsstr ''No text or file provided'')\<rparr>, w)"
    using assms by (simp add: convertTry_def acquireText_def truthy_def)
  have same: "convertHandler sv w req = convertHandler sv w (req\<lparr>body_text := None\<rparr>)"
    by (simp add: convertHandler_def tried tried')
  show ?thesis
    using differ
    by (simp add: route route' same [symmetric] convertHandler_sent convertHandler_world tried)
qed

text \<open>The request \<^verbatim>\<open>{userId: "u1", text: ""}\<close>.\<close>
theorem C9_witness:
  "sent (fst (post_convert ok_services empty_world (inline_request []))) =
     \<lparr>statusCode = 400, json = ErrorBody (jsstr ''No text or file provided'')\<rparr>"
  using C9_empty_inline_text_is_no_content [of "inline_request []" "jsstr ''u1''"
      ok_services empty_world, THEN conjunct1]
  by (simp add: inline_request_def truthy_def jsstr_def)

text \<open>
  Claim C10. No scope around the \<^verbatim>\<open>finally\<close> block binds \<^verbatim>\<open>tempFilePath\<close>. On every
  request that reaches the handler, the guard of the cleanup throws a
  \<^verbatim>\<open>ReferenceError\<close> after the response was sent, the body of the cleanup is never run,
  and the handler's promise rejects with that error.
\<close>

theorem C10_cleanup_guard_throws:
  "''tempFilePath'' \<notin> set finally_scope
   \<and> cleanup_outcome (fst (convertHandler sv w req)) =
       Some (GuardThrew (ReferenceError (jsstr ''tempFilePath is not defined'')))
   \<and> cleanup_outcome (fst (convertHandler sv w req)) \<noteq> Some BodyRun
   \<and> rejection (fst (convertHandler sv w req)) =
       Some (ReferenceError (jsstr ''tempFilePath is not defined''))"
proof -
  have unbound: "''tempFilePath'' \<notin> set finally_scope"
    by (simp add: finally_scope_def)
  have msg: "jsstr ''tempFilePath'' @ jsstr '' is not defined'' =
      jsstr ''tempFilePath is not defined''"
    by (simp add: jsstr_def)
  have fin: "convertFinally = GuardThrew (ReferenceError (jsstr ''tempFilePath is not defined''))"
    using unbound by (simp add: convertFinally_def getValue_def msg)
  show ?thesis
    using unbound by (simp add: convertHandler_def fin split: prod.splits)
qed

text \<open>
  The two refusals of the upload layer: a file of a type that is not allowed is answered
  with 500, a file longer than the limit with 400; in both the handler is not run.
\<close>

lemma wrong_type_internal_error:
  assumes "req_file req = Some f" and "mimetype f \<notin> set allowedTypes"
  shows "post_convert sv w req =
     (\<lparr>sent = \<lparr>statusCode = 500,
               json = ErrorMessageBody (jsstr ''Internal server error'')
                        (jsstr ''Only PDF and TXT files are allowed'')\<rparr>,
       cleanup_outcome = None, rejection = None\<rparr>, w)"
  using assms
  by (simp add: post_convert_def upload_single_def fileFilter_def errorMiddleware_def)

lemma too_large_file_bad_request:
  assumes "req_file req = Some f" and "mimetype f \<in> set allowedTypes"
    and "fileSize_limit < length (buffer f)"
  shows "post_convert sv w req =
     (\<lparr>sent = \<lparr>statusCode = 400,
               json = ErrorBody (jsstr ''File too large. Maximum size is 10MB.'')\<rparr>,
       cleanup_outcome = None, rejection = None\<rparr>, w)"
  using assms
  by (simp add: post_convert_def upload_single_def fileFilter_def errorMiddleware_def)

text \<open>
  Claim C4, at the upload of a PNG file: the filter's error is not a \<^verbatim>\<open>MulterError\<close>, so
  the error middleware answers with 500 and \<^verbatim>\<open>Internal server error\<close>; the handler is
  not run and the stores are unchanged.
\<close>

theorem C4_wrong_file_type_answer:
  "post_convert sv w png_request =
     (\<lparr>sent = \<lparr>statusCode = 500,
               json = ErrorMessageBody (jsstr ''Internal server error'')
                        (jsstr ''Only PDF and TXT files are allowed'')\<rparr>,
       cleanup_outcome = None, rejection = None\<rparr>, w)"
  by (simp add: post_convert_def upload_single_def png_request_def fileFilter_def
      allowedTypes_def errorMiddleware_def jsstr_def)


section \<open>The steps of DELETE /conversions\<close>

lemma listed_id: "listed docId d = d"
  by (simp add: listed_def)

lemma find_listed:
  "wf_namespace docs \<Longrightarrow>
   find (\<lambda>c. id_field c = conversionId) (map (\<lambda>(docId, d). listed docId d) docs) =
     map_of docs conversionId"
  by (induction docs) (auto simp: wf_namespace_def listed_id)

lemma wf_namespace_delete: "wf_namespace docs \<Longrightarrow> wf_namespace (AList.delete k docs)"
proof -
  assume wf: "wf_namespace docs"
  then have "distinct (map fst (AList.delete k docs))"
    by (simp add: wf_namespace_def distinct_delete)
  moreover from wf have "list_all (\<lambda>(docId, d). id_field d = docId) (AList.delete k docs)"
    by (auto simp: wf_namespace_def list_all_iff AList.delete_eq)
  ultimately show ?thesis
    by (simp add: wf_namespace_def)
qed

lemma list_all_update:
  "list_all P docs \<Longrightarrow> P (k, d) \<Longrightarrow> list_all P (AList.update k d docs)"
  by (induction docs) auto

lemma wf_namespace_update:
  "wf_namespace docs \<Longrightarrow> id_field d = k \<Longrightarrow> wf_namespace (AList.update k d docs)"
  by (simp add: wf_namespace_def distinct_update list_all_update)

lemma deleteFile_firestore: "firestore (snd (deleteFile sv w fileName)) = firestore w"
  by (simp add: deleteFile_def split: option.splits)

lemma deleteFiles_firestore: "firestore (deleteFiles sv w names) = firestore w"
proof (induction names arbitrary: w)
  case Nil
  then show ?case by simp
next
  case (Cons n names)
  obtain r w1 where step: "deleteFile sv w n = (r, w1)"
    by (cases "deleteFile sv w n")
  with deleteFile_firestore [of sv w n] have "firestore w1 = firestore w" by simp
  with Cons step show ?case by (cases r) simp_all
qed

lemma delete_conversion_absent:
  assumes "truthy userId" and "truthy conversionId"
    and "collection_get sv userId = None"
    and "wf_namespace (firestore w userId)"
    and "map_of (firestore w userId) conversionId = None"
  shows "delete_conversion sv w userId conversionId =
           (\<lparr>statusCode = 404, json = ErrorBody (jsstr ''Conversion not found'')\<rparr>, w)"
  using assms by (simp add: delete_conversion_def getConversions_def find_listed)

lemma delete_conversion_present:
  assumes "truthy userId" and "truthy conversionId"
    and "collection_get sv userId = None"
    and "wf_namespace (firestore w userId)"
    and "map_of (firestore w userId) conversionId = Some d"
  shows "delete_conversion sv w userId conversionId =
           (case doc_delete sv userId conversionId of
              Some e \<Rightarrow>
                (\<lparr>statusCode = 500,
                  json = ErrorMessageBody (jsstr ''Failed to delete conversion'') (message e)\<rparr>,
                 deleteFiles sv w (filesToDelete d))
            | None \<Rightarrow>
                (\<lparr>statusCode = 200,
                  json = DeletedBody True
                    (jsstr ''Conversion and associated files deleted successfully'')
                    conversionId\<rparr>,
                 (deleteFiles sv w (filesToDelete d))
                   \<lparr>firestore := (firestore w)
                      (userId := AList.delete conversionId (firestore w userId))\<rparr>))"
  using assms
  by (simp add: delete_conversion_def getConversions_def find_listed deleteConversion_def
      deleteFiles_firestore Let_def split: option.splits)

lemma delete_conversion_200:
  assumes "statusCode (fst (delete_conversion sv w userId conversionId)) = 200"
  shows "firestore (snd (delete_conversion sv w userId conversionId)) =
           (firestore w)(userId := AList.delete conversionId (firestore w userId))"
  using assms
  by (simp add: delete_conversion_def getConversions_def deleteConversion_def
      deleteFiles_firestore Let_def split: option.splits if_splits)

lemma publicUrl_folder:
  "publicUrl (folder @ 0x2F # base) =
     (jsstr ''https://storage.googleapis.com/'' @ bucket_name @ jsstr ''/'' @ folder) @ 0x2F # base"
  by (simp add: publicUrl_def)

lemma publicUrl_not_Nil: "publicUrl fileName \<noteq> []"
  by (simp add: publicUrl_def jsstr_def)

lemma uploadFile_url:
  "uploadFile sv w fileName buf ctype = (Inr url, w1) \<Longrightarrow> url = publicUrl fileName"
  by (auto simp: uploadFile_def Let_def split: option.splits)

lemma pop_publicUrl:
  assumes "0x2F \<notin> set base"
  shows "pop (split 0x2F (publicUrl (folder @ 0x2F # base))) = Some base"
  unfolding publicUrl_folder using assms by (rule pop_split)

lemma audio_folder: "jsstr ''audio/'' = jsstr ''audio'' @ [0x2F]"
  and uploads_folder: "jsstr ''uploads/'' = jsstr ''uploads'' @ [0x2F]"
  by (simp_all add: jsstr_def)

lemma example_files:
  "filesToDelete example_record =
     [jsstr ''uploads/original_u1_1_aaaaaa.txt'', jsstr ''audio/audio_u1_2_bbbbbb.mp3'']"
proof -
  have a: "pop (split 0x2F (publicUrl (jsstr ''audio'' @ 0x2F # jsstr ''audio_u1_2_bbbbbb.mp3'')))
      = Some (jsstr ''audio_u1_2_bbbbbb.mp3'')"
    by (rule pop_publicUrl) (simp add: jsstr_def)
  have u: "pop (split 0x2F (publicUrl (jsstr ''uploads'' @ 0x2F # jsstr ''original_u1_1_aaaaaa.txt'')))
      = Some (jsstr ''original_u1_1_aaaaaa.txt'')"
    by (rule pop_publicUrl) (simp add: jsstr_def)
  have names: "jsstr ''audio'' @ 0x2F # jsstr ''audio_u1_2_bbbbbb.mp3'' = jsstr ''audio/audio_u1_2_bbbbbb.mp3''"
    "jsstr ''uploads'' @ 0x2F # jsstr ''original_u1_1_aaaaaa.txt'' = jsstr ''uploads/original_u1_1_aaaaaa.txt''"
    "jsstr ''audio/'' @ jsstr ''audio_u1_2_bbbbbb.mp3'' = jsstr ''audio/audio_u1_2_bbbbbb.mp3''"
    "jsstr ''uploads/'' @ jsstr ''original_u1_1_aaaaaa.txt'' = jsstr ''uploads/original_u1_1_aaaaaa.txt''"
    by (simp_all add: jsstr_def)
  show ?thesis
    using a u
    by (simp add: filesToDelete_def example_record_def names truthy_def publicUrl_not_Nil
        template_undefined_def)
qed

section \<open>The namespace invariant\<close>

text \<open>
  The empty database is well-formed, and both routes that write to the database keep
  every namespace well-formed.
\<close>

lemma wf_namespace_empty: "wf_namespace (firestore empty_world userId)"
  by (simp add: wf_namespace_def empty_world_def)

lemma uploadFile_firestore:
  "firestore (snd (uploadFile sv w fileName buf ctype)) = firestore w"
  by (simp add: uploadFile_def Let_def split: option.splits)

lemma saveConversion_wf:
  assumes "wf_namespace (firestore w u)"
  shows "wf_namespace (firestore (snd (saveConversion sv w userId data)) u)"
  using assms
  by (auto simp: saveConversion_def Let_def wf_namespace_update conversionData.defs
      conversionWithId.defs split: option.splits)

lemma saveConversion_wf_result:
  "saveConversion sv w userId data = (r, w1) \<Longrightarrow> wf_namespace (firestore w u) \<Longrightarrow>
   wf_namespace (firestore w1 u)"
  using saveConversion_wf [of w u sv userId data] by simp

lemma acquireText_firestore:
  "firestore (snd (acquireText sv w req userId)) = firestore w"
proof (cases "req_file req")
  case None
  then show ?thesis
    by (simp add: acquireText_def split: option.splits)
next
  case (Some f)
  let ?name = "jsstr ''uploads/'' @ generateFileName sv userId (jsstr ''original'') @ jsstr ''.''
      @ (if mimetype f = jsstr ''application/pdf'' then jsstr ''pdf'' else jsstr ''txt'')"
  show ?thesis
  proof (cases "extractTextFromBuffer sv (buffer f) (mimetype f)")
    case (Inl e)
    with Some show ?thesis by (simp add: acquireText_def Let_def)
  next
    case (Inr t)
    obtain r w1 where up: "uploadFile sv w ?name (buffer f) (mimetype f) = (r, w1)"
      by (cases "uploadFile sv w ?name (buffer f) (mimetype f)")
    with uploadFile_firestore [of sv w ?name "buffer f" "mimetype f"]
    have "firestore w1 = firestore w" by simp
    with Some Inr up show ?thesis
      by (cases r) (simp_all add: acquireText_def Let_def)
  qed
qed

lemma validateAndConvert_wf:
  assumes "wf_namespace (firestore w u)"
  shows "wf_namespace (firestore (snd (validateAndConvert sv w userId a)) u)"
proof -
  let ?name = "jsstr ''audio/'' @ generateFileName sv userId (jsstr ''audio'') @ jsstr ''.mp3''"
  have audio: "firestore (snd (convertAndSaveAudio sv w t ?name)) = firestore w" for t
  proof (cases "convertTextToAudio sv t ?name default_voice")
    case (Inl e)
    then show ?thesis by (simp add: convertAndSaveAudio_def)
  next
    case (Inr buf)
    obtain r w1 where up: "uploadFile sv w ?name buf (jsstr ''audio/mpeg'') = (r, w1)"
      by (cases "uploadFile sv w ?name buf (jsstr ''audio/mpeg'')")
    with uploadFile_firestore [of sv w ?name buf "jsstr ''audio/mpeg''"]
    have "firestore w1 = firestore w" by simp
    with Inr up show ?thesis
      by (cases r) (simp_all add: convertAndSaveAudio_def saveAudioFile_def)
  qed
  show ?thesis
  proof (cases "convertAndSaveAudio sv w (var_textContent a) ?name")
    case (Pair r w1)
    with audio [of "var_textContent a"] assms have wf1: "wf_namespace (firestore w1 u)"
      by simp
    show ?thesis
    proof (cases r)
      case (Inl e)
      with Pair wf1 assms show ?thesis
        by (simp add: validateAndConvert_def Let_def)
    next
      case (Inr res)
      with Pair wf1 assms show ?thesis
        by (auto simp: validateAndConvert_def Let_def split: prod.splits sum.splits
            dest: saveConversion_wf_result)
    qed
  qed
qed

lemma post_convert_wf:
  assumes "wf_namespace (firestore w u)"
  shows "wf_namespace (firestore (snd (post_convert sv w req)) u)"
proof -
  have tried: "wf_namespace (firestore (snd (convertTry sv w r)) u)" for r
  proof (cases "body_userId r")
    case None
    with assms show ?thesis by (simp add: convertTry_def)
  next
    case (Some userId)
    obtain c w1 where acq: "acquireText sv w r userId = (c, w1)"
      by (cases "acquireText sv w r userId")
    with acquireText_firestore [of sv w r userId] assms have "wf_namespace (firestore w1 u)"
      by simp
    with Some acq assms validateAndConvert_wf [of w1 u sv userId] show ?thesis
      by (cases c) (simp_all add: convertTry_def)
  qed
  show ?thesis
    using assms tried
    by (simp add: post_convert_def convertHandler_world split: sum.splits)
qed

lemma delete_conversion_wf:
  assumes "wf_namespace (firestore w u)"
  shows "wf_namespace (firestore (snd (delete_conversion sv w userId conversionId)) u)"
  using assms
  by (auto simp: delete_conversion_def getConversions_def deleteConversion_def Let_def
      deleteFiles_firestore wf_namespace_delete split: option.splits)

section \<open>Claims about DELETE /conversions and the adapters\<close>

text \<open>
  Claim C5. In a well-formed namespace, when the listing goes through: a delete of an
  identifier that no document has is answered with 404 and \<^verbatim>\<open>Conversion not found\<close>
  and changes neither store; and after a delete that was answered with 200, a second
  delete of the same identifier is answered with 404 and changes nothing.
\<close>

theorem C5_delete_absent_record_not_found:
  assumes "truthy userId" and "truthy conversionId"
    and "wf_namespace (firestore w userId)"
  shows "(collection_get sv userId = None \<and> map_of (firestore w userId) conversionId = None \<longrightarrow>
            delete_conversion sv w userId conversionId =
              (\<lparr>statusCode = 404, json = ErrorBody (jsstr ''Conversion not found'')\<rparr>, w))
       \<and> (statusCode (fst (delete_conversion sv w userId conversionId)) = 200
            \<and> collection_get sv2 userId = None \<longrightarrow>
            delete_conversion sv2 (snd (delete_conversion sv w userId conversionId))
                userId conversionId =
              (\<lparr>statusCode = 404, json = ErrorBody (jsstr ''Conversion not found'')\<rparr>,
               snd (delete_conversion sv w userId conversionId)))"
proof (intro conjI impI)
  assume "collection_get sv userId = None \<and> map_of (firestore w userId) conversionId = None"
  with assms show "delete_conversion sv w userId conversionId =
      (\<lparr>statusCode = 404, json = ErrorBody (jsstr ''Conversion not found'')\<rparr>, w)"
    by (simp add: delete_conversion_absent)
next
  let ?w1 = "snd (delete_conversion sv w userId conversionId)"
  assume first: "statusCode (fst (delete_conversion sv w userId conversionId)) = 200
      \<and> collection_get sv2 userId = None"
  then have docs: "firestore ?w1 userId = AList.delete conversionId (firestore w userId)"
    by (simp add: delete_conversion_200)
  have wf1: "wf_namespace (firestore ?w1 userId)"
    using assms(3) by (simp add: docs wf_namespace_delete)
  have gone: "map_of (firestore ?w1 userId) conversionId = None"
    by (simp add: docs delete_conv')
  from assms(1,2) first wf1 gone
  show "delete_conversion sv2 ?w1 userId conversionId =
      (\<lparr>statusCode = 404, json = ErrorBody (jsstr ''Conversion not found'')\<rparr>, ?w1)"
    by (simp add: delete_conversion_absent)
qed

text \<open>
  In the example world: an identifier that is absent, then the record \<^verbatim>\<open>c1\<close> deleted
  twice.
\<close>

theorem C5_witness:
  "delete_conversion ok_services example_world (jsstr ''u1'') (jsstr ''c2'') =
     (\<lparr>statusCode = 404, json = ErrorBody (jsstr ''Conversion not found'')\<rparr>, example_world)
   \<and> statusCode (fst (delete_conversion ok_services example_world (jsstr ''u1'') (jsstr ''c1'')))
       = 200
   \<and> fst (delete_conversion ok_services
        (snd (delete_conversion ok_services example_world (jsstr ''u1'') (jsstr ''c1'')))
        (jsstr ''u1'') (jsstr ''c1'')) =
     \<lparr>statusCode = 404, json = ErrorBody (jsstr ''Conversion not found'')\<rparr>"
proof -
  have u: "truthy (jsstr ''u1'')" and c1: "truthy (jsstr ''c1'')" and c2: "truthy (jsstr ''c2'')"
    by (simp_all add: truthy_def jsstr_def)
  have docs: "firestore example_world (jsstr ''u1'') = [(jsstr ''c1'', example_record)]"
    by (simp add: example_world_def)
  have wf: "wf_namespace (firestore example_world (jsstr ''u1''))"
    by (simp add: docs wf_namespace_def example_record_def)
  have listing: "collection_get ok_services (jsstr ''u1'') = None"
    and deleting: "doc_delete ok_services (jsstr ''u1'') (jsstr ''c1'') = None"
    by (simp_all add: ok_services_def)
  have absent: "map_of (firestore example_world (jsstr ''u1'')) (jsstr ''c2'') = None"
    by (simp add: example_world_def jsstr_def)
  have present: "map_of (firestore example_world (jsstr ''u1'')) (jsstr ''c1'') = Some example_record"
    by (simp add: docs)
  have first: "statusCode (fst (delete_conversion ok_services example_world (jsstr ''u1'')
      (jsstr ''c1''))) = 200"
    by (simp add: delete_conversion_present [OF u c1 listing wf present] deleting)
  from C5_delete_absent_record_not_found [OF u c2 wf, of ok_services ok_services] listing absent
  have one: "delete_conversion ok_services example_world (jsstr ''u1'') (jsstr ''c2'') =
     (\<lparr>statusCode = 404, json = ErrorBody (jsstr ''Conversion not found'')\<rparr>, example_world)"
    by simp
  from C5_delete_absent_record_not_found [OF u c1 wf, of ok_services ok_services] listing first
  have two: "fst (delete_conversion ok_services
        (snd (delete_conversion ok_services example_world (jsstr ''u1'') (jsstr ''c1'')))
        (jsstr ''u1'') (jsstr ''c1'')) =
     \<lparr>statusCode = 404, json = ErrorBody (jsstr ''Conversion not found'')\<rparr>"
    by simp
  from one first two show ?thesis by simp
qed

text \<open>
  Claim C6. When the record exists and the listing and the deletion of the record go
  through, the delete is answered with 200 and the identifier, and the record is gone
  from the user's namespace afterwards, whatever the bucket holds and whatever the blob
  store answers to the deletion of each artifact.
\<close>

theorem C6_artifact_failures_do_not_abort_delete:
  assumes "truthy userId" and "truthy conversionId"
    and "collection_get sv userId = None" and "doc_delete sv userId conversionId = None"
    and "wf_namespace (firestore w userId)"
    and "map_of (firestore w userId) conversionId = Some d"
  shows "fst (delete_conversion sv w userId conversionId) =
           \<lparr>statusCode = 200,
            json = DeletedBody True
              (jsstr ''Conversion and associated files deleted successfully'') conversionId\<rparr>
       \<and> firestore (snd (delete_conversion sv w userId conversionId)) =
           (firestore w)(userId := AList.delete conversionId (firestore w userId))
       \<and> map_of (firestore (snd (delete_conversion sv w userId conversionId)) userId)
           conversionId = None"
  using assms by (simp add: delete_conversion_present delete_conv')

text \<open>
  In the example world the original upload is missing from the bucket, and the blob
  store refuses to delete the audio: both deletions fail, the record is deleted.
\<close>

theorem C6_witness:
  "filesToDelete example_record =
     [jsstr ''uploads/original_u1_1_aaaaaa.txt'', jsstr ''audio/audio_u1_2_bbbbbb.mp3'']
   \<and> fst (deleteFile no_delete_services example_world (jsstr ''uploads/original_u1_1_aaaaaa.txt'')) =
     Inl (ServiceError (jsstr ''No such object: uploads/original_u1_1_aaaaaa.txt''))
   \<and> fst (deleteFile no_delete_services example_world (jsstr ''audio/audio_u1_2_bbbbbb.mp3'')) =
     Inl (ServiceError (jsstr ''delete refused''))
   \<and> fst (delete_conversion no_delete_services example_world (jsstr ''u1'') (jsstr ''c1'')) =
     \<lparr>statusCode = 200,
      json = DeletedBody True (jsstr ''Conversion and associated files deleted successfully'')
               (jsstr ''c1'')\<rparr>
   \<and> firestore (snd (delete_conversion no_delete_services example_world (jsstr ''u1'')
        (jsstr ''c1''))) (jsstr ''u1'') = []"
proof -
  have u: "truthy (jsstr ''u1'')" and c1: "truthy (jsstr ''c1'')"
    by (simp_all add: truthy_def jsstr_def)
  have docs: "firestore example_world (jsstr ''u1'') = [(jsstr ''c1'', example_record)]"
    by (simp add: example_world_def)
  have wf: "wf_namespace (firestore example_world (jsstr ''u1''))"
    by (simp add: docs wf_namespace_def example_record_def)
  have listing: "collection_get no_delete_services (jsstr ''u1'') = None"
    and deleting: "doc_delete no_delete_services (jsstr ''u1'') (jsstr ''c1'') = None"
    by (simp_all add: no_delete_services_def ok_services_def)
  have present: "map_of (firestore example_world (jsstr ''u1'')) (jsstr ''c1'') = Some example_record"
    by (simp add: docs)
  have missing: "fst (deleteFile no_delete_services example_world
        (jsstr ''uploads/original_u1_1_aaaaaa.txt'')) =
     Inl (ServiceError (jsstr ''No such object: uploads/original_u1_1_aaaaaa.txt''))"
    by (simp add: deleteFile_def example_world_def jsstr_def)
  have refused: "fst (deleteFile no_delete_services example_world
        (jsstr ''audio/audio_u1_2_bbbbbb.mp3'')) = Inl (ServiceError (jsstr ''delete refused''))"
    by (simp add: deleteFile_def example_world_def no_delete_services_def ok_services_def)
  from C6_artifact_failures_do_not_abort_delete [OF u c1 listing deleting wf present]
    missing refused example_files
  show ?thesis
    by (simp add: docs)
qed

text \<open>
  Claim C7, as amended. \<^verbatim>\<open>deleteConversion\<close> of an identifier that is absent from the
  user's namespace does not fail for that: it returns the identifier and leaves both
  stores as they are; it fails only when the database refuses the call.
\<close>

theorem C7_deleteConversion_absent_record_succeeds:
  assumes "map_of (firestore w userId) conversionId = None"
  shows "deleteConversion sv w userId conversionId =
           (case doc_delete sv userId conversionId of
              Some e \<Rightarrow> (Inl e, w)
            | None \<Rightarrow> (Inr conversionId, w))"
proof -
  from assms have "conversionId \<notin> fst ` set (firestore w userId)"
    by (simp add: map_of_eq_None_iff)
  then have "AList.delete conversionId (firestore w userId) = firestore w userId"
    by simp
  then show ?thesis
    by (simp add: deleteConversion_def split: option.splits)
qed

text \<open>The absent identifier \<^verbatim>\<open>c2\<close> in the example world.\<close>

theorem C7_witness:
  "deleteConversion ok_services example_world (jsstr ''u1'') (jsstr ''c2'') =
     (Inr (jsstr ''c2''), example_world)"
proof -
  have absent: "map_of (firestore example_world (jsstr ''u1'')) (jsstr ''c2'') = None"
    by (simp add: example_world_def jsstr_def)
  have "doc_delete ok_services (jsstr ''u1'') (jsstr ''c2'') = None"
    by (simp add: ok_services_def)
  with C7_deleteConversion_absent_record_succeeds [OF absent, of ok_services]
  show ?thesis by simp
qed

text \<open>
  Claim C7 as stated fails: in the empty world, \<^verbatim>\<open>deleteConversion\<close> of the absent
  identifier \<^verbatim>\<open>c1\<close> of user \<^verbatim>\<open>u1\<close> returns \<^verbatim>\<open>c1\<close>.
\<close>

theorem C7_absent_delete_counterexample:
  "map_of (firestore empty_world (jsstr ''u1'')) (jsstr ''c1'') = None
   \<and> deleteConversion ok_services empty_world (jsstr ''u1'') (jsstr ''c1'') =
       (Inr (jsstr ''c1''), empty_world)"
  by (simp add: deleteConversion_def ok_services_def empty_world_def fun_eq_iff)

text \<open>
  Claim C8. When a base name contains no slash, the URL that \<^verbatim>\<open>uploadFile\<close> returns
  for \<^verbatim>\<open>audio/\<close> or \<^verbatim>\<open>uploads/\<close> followed by that base name has the base name as its
  last segment between slashes; the names the delete handler rebuilds from the URLs of a
  record are the names its artifacts were stored under.
\<close>

theorem C8_stored_url_gives_back_name:
  assumes "0x2F \<notin> set audioBase" and "0x2F \<notin> set uploadBase"
    and "uploadFile sv1 w1 (jsstr ''audio/'' @ audioBase) buf1 ctype1 = (Inr audio_url, w1')"
    and "uploadFile sv2 w2 (jsstr ''uploads/'' @ uploadBase) buf2 ctype2 = (Inr upload_url, w2')"
  shows "pop (split 0x2F audio_url) = Some audioBase
       \<and> pop (split 0x2F upload_url) = Some uploadBase
       \<and> (audioUrl c = audio_url \<and> originalFileUrl c = Some upload_url \<longrightarrow>
            filesToDelete c = [jsstr ''uploads/'' @ uploadBase, jsstr ''audio/'' @ audioBase])
       \<and> (audioUrl c = audio_url \<and> originalFileUrl c = None \<longrightarrow>
            filesToDelete c = [jsstr ''audio/'' @ audioBase])"
proof -
  have a_url: "audio_url = publicUrl (jsstr ''audio'' @ 0x2F # audioBase)"
    using uploadFile_url [OF assms(3)] by (simp add: audio_folder)
  have u_url: "upload_url = publicUrl (jsstr ''uploads'' @ 0x2F # uploadBase)"
    using uploadFile_url [OF assms(4)] by (simp add: uploads_folder)
  have a_pop: "pop (split 0x2F audio_url) = Some audioBase"
    unfolding a_url using assms(1) by (rule pop_publicUrl)
  have u_pop: "pop (split 0x2F upload_url) = Some uploadBase"
    unfolding u_url using assms(2) by (rule pop_publicUrl)
  have a_truthy: "truthy audio_url" and u_truthy: "truthy upload_url"
    by (simp_all add: truthy_def a_url u_url publicUrl_not_Nil)
  show ?thesis
    using a_pop u_pop a_truthy u_truthy
    by (simp add: filesToDelete_def template_undefined_def)
qed

text \<open>The two artifacts of the example record.\<close>

theorem C8_witness:
  "pop (split 0x2F (publicUrl (jsstr ''audio/audio_u1_2_bbbbbb.mp3''))) =
     Some (jsstr ''audio_u1_2_bbbbbb.mp3'')
   \<and> filesToDelete example_record =
     [jsstr ''uploads/original_u1_1_aaaaaa.txt'', jsstr ''audio/audio_u1_2_bbbbbb.mp3'']"
proof -
  let ?a = "jsstr ''audio_u1_2_bbbbbb.mp3''" and ?u = "jsstr ''original_u1_1_aaaaaa.txt''"
  have h1: "0x2F \<notin> set ?a" and h2: "0x2F \<notin> set ?u"
    by (simp_all add: jsstr_def)
  have names: "jsstr ''audio/'' @ ?a = jsstr ''audio/audio_u1_2_bbbbbb.mp3''"
    "jsstr ''uploads/'' @ ?u = jsstr ''uploads/original_u1_1_aaaaaa.txt''"
    by (simp_all add: jsstr_def)
  have h3: "uploadFile ok_services empty_world (jsstr ''audio/'' @ ?a) [0x49, 0x44, 0x33]
        (jsstr ''audio/mpeg'') =
      (Inr (publicUrl (jsstr ''audio/audio_u1_2_bbbbbb.mp3'')),
       snd (uploadFile ok_services empty_world (jsstr ''audio/'' @ ?a) [0x49, 0x44, 0x33]
        (jsstr ''audio/mpeg'')))"
    by (simp add: uploadFile_def ok_services_def Let_def names)
  have h4: "uploadFile ok_services empty_world (jsstr ''uploads/'' @ ?u) [0x68, 0x69]
        (jsstr ''text/plain'') =
      (Inr (publicUrl (jsstr ''uploads/original_u1_1_aaaaaa.txt'')),
       snd (uploadFile ok_services empty_world (jsstr ''uploads/'' @ ?u) [0x68, 0x69]
        (jsstr ''text/plain'')))"
    by (simp add: uploadFile_def ok_services_def Let_def names)
  have rec: "audioUrl example_record = publicUrl (jsstr ''audio/audio_u1_2_bbbbbb.mp3'')"
    "originalFileUrl example_record = Some (publicUrl (jsstr ''uploads/original_u1_1_aaaaaa.txt''))"
    by (simp_all add: example_record_def)
  from C8_stored_url_gives_back_name [OF h1 h2 h3 h4, of example_record] rec
  show ?thesis
    by (simp add: names)
qed

end
